theory Spec2Isabelle
  imports Complex_Main
begin

section \<open>Strings\<close>

text \<open>
  A Python \<open>str\<close> is modelled as a \<open>string\<close> (a list of characters). The three
  characters that cannot be written inside a string literal get a name each.
\<close>

abbreviation sq :: char where "sq \<equiv> CHR 0x27"   \<comment> \<open>the single quote\<close>
abbreviation dq :: char where "dq \<equiv> CHR 0x22"   \<comment> \<open>the double quote\<close>
abbreviation bs :: char where "bs \<equiv> CHR 0x5C"   \<comment> \<open>the backslash\<close>

text \<open>
  \<open>str.lower()\<close>, on ASCII letters; every other character is left as it is. No
  theorem below depends on how a character is lower-cased.
\<close>

definition char_lower :: "char \<Rightarrow> char" where
  "char_lower c =
     (case map_of (zip ''ABCDEFGHIJKLMNOPQRSTUVWXYZ'' ''abcdefghijklmnopqrstuvwxyz'') c of
        Some d \<Rightarrow> d
      | None \<Rightarrow> c)"

definition lower :: "string \<Rightarrow> string" where
  "lower s = map char_lower s"

text \<open>\<open>s.split(c)\<close> for a separator of one character: never the empty list.\<close>

fun str_split :: "char \<Rightarrow> string \<Rightarrow> string list" where
  "str_split c [] = [[]]"
| "str_split c (x # xs) =
     (if x = c then [] # str_split c xs
      else (case str_split c xs of p # ps \<Rightarrow> (x # p) # ps | [] \<Rightarrow> [[x]]))"

text \<open>\<open>sep.join(parts)\<close>.\<close>

fun str_join :: "string \<Rightarrow> string list \<Rightarrow> string" where
  "str_join sep [] = []"
| "str_join sep [p] = p"
| "str_join sep (p # q # ps) = p @ sep @ str_join sep (q # ps)"

subsection \<open>utils.py\<close>

text \<open>
  \<^verbatim>\<open>
  def quote(s):
      if "'" not in s: return f"'{s}'"
      if '"' not in s: return f'"{s}"'
      parts = [f'"{chunk}"' for chunk in s.split("'")]
      glued = ",'\"',".join(parts)
      return f"concat({glued})"
  \<close>
  The separator of the last branch is the five characters comma, single quote, double
  quote, single quote, comma.
\<close>

definition quote :: "string \<Rightarrow> string" where
  "quote s =
     (if sq \<notin> set s then [sq] @ s @ [sq]
      else if dq \<notin> set s then [dq] @ s @ [dq]
      else ''concat(''
           @ str_join ('','' @ [sq, dq, sq] @ '','')
               (map (\<lambda>chunk. [dq] @ chunk @ [dq]) (str_split sq s))
           @ '')'')"

text \<open>
  The third rule of \<open>quote\<close> as the specification words it: the pieces of \<open>s\<close> split on
  the single quote, each in double quotes, with the double-quoted apostrophe between
  them. Only used to compare with \<open>quote\<close>.
\<close>

definition quote_spec_concat :: "string \<Rightarrow> string" where
  "quote_spec_concat s =
     ''concat(''
     @ str_join ('','' @ [dq, sq, dq] @ '','')
         (map (\<lambda>chunk. [dq] @ chunk @ [dq]) (str_split sq s))
     @ '')''"

text \<open>
  The text that the arguments of the \<open>concat(...)\<close> built by \<open>quote\<close> stand for, joined
  again: the chunks, with the character of the separator literal between them.
\<close>

definition quote_rejoined :: "string \<Rightarrow> string" where
  "quote_rejoined s = str_join [dq] (str_split sq s)"

text \<open>
  \<open>re_escape_xsd\<close>: the raw string of specials is
  \<^verbatim>\<open>.^$|?*+()[]{}\-\\\<close>, backslashes included as written.
\<close>

definition specials :: string where
  "specials = ''.^$|?*+()[]{}'' @ [bs] @ ''-'' @ [bs, bs]"

definition re_escape_xsd :: "string \<Rightarrow> string" where
  "re_escape_xsd lit = concat (map (\<lambda>ch. if ch \<in> set specials then [bs, ch] else [ch]) lit)"

section \<open>Errors\<close>

text \<open>
  The two exceptions of the package, with their messages. \<open>ValueError\<close> is what
  \<open>Ops.cmp\<close> (invalid operator) and \<open>_AttrOps.has_name\<close> (invalid usage) raise.
\<close>

datatype error = ValueError string | SyntaxError string

subsection \<open>Validation\<close>

text \<open>
  The module probes for two optional engines when it is loaded. An engine is a function
  from the expression to \<open>None\<close> when it accepts, or to the text of the exception it
  throws.
\<close>

record engines =
  elementpath_available :: bool
  lxml_available :: bool
  elementpath_parse :: "string \<Rightarrow> string option"
  lxml_XPath :: "string \<Rightarrow> string option"

definition validate_xpath :: "engines \<Rightarrow> string \<Rightarrow> error + unit" where
  "validate_xpath env expr =
     (if elementpath_available env then
        (case elementpath_parse env expr of
           None \<Rightarrow> Inr ()
         | Some e \<Rightarrow> Inl (SyntaxError (''XPath (elementpath) syntax error: '' @ e)))
      else if lxml_available env then
        (case lxml_XPath env expr of
           None \<Rightarrow> Inr ()
         | Some e \<Rightarrow> Inl (SyntaxError (''XPath (lxml) syntax error: '' @ e)))
      else Inr ())"

section \<open>core.py\<close>

subsection \<open>Pred\<close>

datatype Pred = Pred (pred_expr: string)

definition Pred_compile :: "Pred \<Rightarrow> string" where
  "Pred_compile p = pred_expr p"

definition Pred_and :: "Pred \<Rightarrow> Pred \<Rightarrow> Pred" where
  "Pred_and p other = Pred (''('' @ pred_expr p @ '') and ('' @ pred_expr other @ '')'')"

definition Pred_or :: "Pred \<Rightarrow> Pred \<Rightarrow> Pred" where
  "Pred_or p other = Pred (''('' @ pred_expr p @ '') or ('' @ pred_expr other @ '')'')"

definition Pred_neg :: "Pred \<Rightarrow> Pred" where
  "Pred_neg p = Pred (''not('' @ pred_expr p @ '')'')"

definition Pred_union :: "Pred list \<Rightarrow> Pred" where
  "Pred_union preds =
     (if preds = [] then Pred ''false()''
      else Pred (str_join '' or '' (map (\<lambda>p. ''('' @ Pred_compile p @ '')'') preds)))"

subsection \<open>Ops\<close>

record 'a Ops =
  lhs :: string
  to_lit :: "'a \<Rightarrow> string"

definition comparators :: "string list" where
  "comparators = [''='', ''!='', ''<'', ''<='', ''>'', ''>='']"

definition Ops_cmp :: "'a Ops \<Rightarrow> string \<Rightarrow> 'a \<Rightarrow> error + Pred" where
  "Ops_cmp ops op v =
     (if op \<notin> set comparators then Inl (ValueError ''Invalid comparator'')
      else Inr (Pred (lhs ops @ '' '' @ op @ '' '' @ to_lit ops v)))"

definition Ops_eq :: "'a Ops \<Rightarrow> 'a \<Rightarrow> error + Pred" where
  "Ops_eq ops v = Ops_cmp ops ''='' v"

definition Ops_ne :: "'a Ops \<Rightarrow> 'a \<Rightarrow> error + Pred" where
  "Ops_ne ops v = Ops_cmp ops ''!='' v"

definition Ops_lt :: "'a Ops \<Rightarrow> 'a \<Rightarrow> error + Pred" where
  "Ops_lt ops v = Ops_cmp ops ''<'' v"

definition Ops_le :: "'a Ops \<Rightarrow> 'a \<Rightarrow> error + Pred" where
  "Ops_le ops v = Ops_cmp ops ''<='' v"

definition Ops_gt :: "'a Ops \<Rightarrow> 'a \<Rightarrow> error + Pred" where
  "Ops_gt ops v = Ops_cmp ops ''>'' v"

definition Ops_ge :: "'a Ops \<Rightarrow> 'a \<Rightarrow> error + Pred" where
  "Ops_ge ops v = Ops_cmp ops ''>='' v"

definition Ops_in :: "'a Ops \<Rightarrow> 'a list \<Rightarrow> Pred" where
  "Ops_in ops vals =
     (if vals = [] then Pred ''false()''
      else Pred (lhs ops @ '' = '' @ ''('' @ str_join '', '' (map (to_lit ops) vals) @ '')''))"

definition Ops_not_in :: "'a Ops \<Rightarrow> 'a list \<Rightarrow> Pred" where
  "Ops_not_in ops vals = Pred_neg (Ops_in ops vals)"

definition attr_str :: "string \<Rightarrow> bool \<Rightarrow> string Ops" where
  "attr_str name ci =
     \<lparr> lhs = (if ci then ''lower-case(@'' @ name @ '')'' else ''@'' @ name),
       to_lit = (\<lambda>v. quote (if ci then lower v else v)) \<rparr>"

text \<open>
  A Python \<open>float\<close>: a finite value (sign and magnitude, so that \<open>-0.0\<close> is a value of
  its own), an infinity with its sign, or not-a-number. The flag is \<open>True\<close> for the
  negative sign. \<open>float_eq\<close> is \<open>==\<close> and \<open>float_ne\<close> is \<open>!=\<close>: not-a-number is equal to
  nothing, itself included, and the two zeros are equal.
\<close>

datatype pyfloat = Finite bool rat | Inf bool | NaN

fun float_eq :: "pyfloat \<Rightarrow> pyfloat \<Rightarrow> bool" where
  "float_eq NaN _ = False"
| "float_eq _ NaN = False"
| "float_eq (Inf s) (Inf t) = (s = t)"
| "float_eq (Finite s m) (Finite t n) = (m = n \<and> (s = t \<or> m = 0))"
| "float_eq (Finite _ _) (Inf _) = False"
| "float_eq (Inf _) (Finite _ _) = False"

definition float_ne :: "pyfloat \<Rightarrow> pyfloat \<Rightarrow> bool" where
  "float_ne a b = (\<not> float_eq a b)"

text \<open>
  \<open>attr_num\<close>. Python's \<open>str\<close> on a float is a builtin, not code of the package: it is
  the parameter \<open>str_float\<close>. \<open>float("inf")\<close> is \<open>Inf False\<close>, \<open>float("-inf")\<close> is
  \<open>Inf True\<close>.
\<close>

definition attr_num :: "(pyfloat \<Rightarrow> string) \<Rightarrow> string \<Rightarrow> pyfloat Ops" where
  "attr_num str_float name =
     \<lparr> lhs = ''number(@'' @ name @ '')'',
       to_lit = (\<lambda>v. if float_ne v v then ''NaN''
                      else if float_eq v (Inf False) then ''Infinity''
                      else if float_eq v (Inf True) then ''-Infinity''
                      else str_float v) \<rparr>"

definition bool_expr :: "string \<Rightarrow> bool Ops" where
  "bool_expr expr = \<lparr> lhs = expr, to_lit = (\<lambda>v. if v then ''true()'' else ''false()'') \<rparr>"

definition string_value :: "bool \<Rightarrow> string Ops" where
  "string_value ci =
     \<lparr> lhs = (if ci then ''lower-case(string(.))'' else ''string(.)''),
       to_lit = (\<lambda>v. quote (if ci then lower v else v)) \<rparr>"

subsection \<open>The set builder\<close>

datatype SetBuilder = SetBuilder (make_one: "string \<Rightarrow> string")

definition any_of :: "SetBuilder \<Rightarrow> string list \<Rightarrow> Pred" where
  "any_of sb tokens =
     (if tokens = [] then Pred ''false()''
      else Pred (str_join '' or '' (map (make_one sb) tokens)))"

definition all_of :: "SetBuilder \<Rightarrow> string list \<Rightarrow> Pred" where
  "all_of sb tokens =
     (if tokens = [] then Pred ''true()''
      else Pred (str_join '' and '' (map (make_one sb) tokens)))"

definition none_of :: "SetBuilder \<Rightarrow> string list \<Rightarrow> Pred" where
  "none_of sb tokens =
     (if tokens = [] then Pred ''true()'' else Pred_neg (any_of sb tokens))"

subsection \<open>Attribute names\<close>

datatype AttrNameOps = AttrNameOps (name_ci: bool)

definition lname :: "AttrNameOps \<Rightarrow> string \<Rightarrow> string" where
  "lname a var =
     (if name_ci a then ''lower-case(local-name('' @ var @ ''))''
      else ''local-name('' @ var @ '')'')"

definition AttrNameOps_contains :: "AttrNameOps \<Rightarrow> SetBuilder" where
  "AttrNameOps_contains a =
     SetBuilder (\<lambda>substr.
       let x = lname a ''$a'';
           needle = (if name_ci a then lower substr else substr)
       in ''some $a in @* satisfies contains('' @ x @ '', '' @ quote needle @ '')'')"

definition AttrNameOps_equals :: "AttrNameOps \<Rightarrow> SetBuilder" where
  "AttrNameOps_equals a =
     SetBuilder (\<lambda>name.
       let x = lname a ''$a'';
           target = (if name_ci a then lower name else name)
       in ''some $a in @* satisfies '' @ x @ '' = '' @ quote target)"

definition AttrNameOps_any_of :: "AttrNameOps \<Rightarrow> string list \<Rightarrow> Pred" where
  "AttrNameOps_any_of a names = any_of (AttrNameOps_equals a) names"

definition seq_literal_strs :: "string list \<Rightarrow> string" where
  "seq_literal_strs items = ''('' @ str_join '', '' (map quote items) @ '')''"

definition AttrNameOps_all_of :: "AttrNameOps \<Rightarrow> string list \<Rightarrow> Pred" where
  "AttrNameOps_all_of a names =
     (if names = [] then Pred ''true()''
      else
        let seq = seq_literal_strs (map (\<lambda>n. if name_ci a then lower n else n) names);
            x = (if name_ci a then ''lower-case(local-name($a))'' else ''local-name($a)'')
        in Pred (''every $n in '' @ seq @ '' satisfies some $a in @* satisfies '' @ x @ '' = $n''))"

definition AttrNameOps_none_of :: "AttrNameOps \<Rightarrow> string list \<Rightarrow> Pred" where
  "AttrNameOps_none_of a names =
     (if names = [] then Pred ''true()'' else Pred_neg (AttrNameOps_any_of a names))"

definition AttrNameOps_startswith :: "AttrNameOps \<Rightarrow> SetBuilder" where
  "AttrNameOps_startswith a =
     SetBuilder (\<lambda>prefix.
       let x = lname a ''$a''
       in ''some $a in @* satisfies starts-with('' @ x @ '', ''
          @ quote (if name_ci a then lower prefix else prefix) @ '')'')"

definition AttrNameOps_endswith :: "AttrNameOps \<Rightarrow> SetBuilder" where
  "AttrNameOps_endswith a =
     SetBuilder (\<lambda>suffix.
       let x = lname a ''$a''
       in ''some $a in @* satisfies ends-with('' @ x @ '', ''
          @ quote (if name_ci a then lower suffix else suffix) @ '')'')"

definition AttrNameOps_matches :: "AttrNameOps \<Rightarrow> string \<Rightarrow> SetBuilder" where
  "AttrNameOps_matches a flags =
     (let fl = (if flags \<noteq> [] then '', '' @ quote flags else [])
      in SetBuilder (\<lambda>pattern.
           let l = (if name_ci a then ''lower-case(local-name($a))'' else ''local-name($a)'')
           in ''some $a in @* satisfies matches('' @ l @ '', '' @ quote pattern @ fl @ '')''))"

subsection \<open>Attributes\<close>

datatype AttrOps = AttrOps (name: string) (ci: bool)

definition AttrOps_contains :: "AttrOps \<Rightarrow> SetBuilder" where
  "AttrOps_contains a =
     (let base = (if ci a then ''lower-case(@'' @ name a @ '')'' else ''@'' @ name a)
      in SetBuilder (\<lambda>tok.
           let needle = (if ci a then lower tok else tok)
           in ''contains('' @ base @ '', '' @ quote needle @ '')''))"

definition AttrOps_contains_tokens :: "AttrOps \<Rightarrow> SetBuilder" where
  "AttrOps_contains_tokens a =
     (let src = ''concat(' ', normalize-space(@'' @ name a @ ''), ' ')'';
          flags = (if ci a then '', 'i'' @ [sq] else [])
      in SetBuilder (\<lambda>tok.
           let pat = [bs] @ ''s'' @ re_escape_xsd tok @ [bs] @ ''s''
           in ''matches('' @ src @ '', '' @ quote pat @ flags @ '')''))"

definition AttrOps_none_of :: "AttrOps \<Rightarrow> string list \<Rightarrow> Pred" where
  "AttrOps_none_of a tokens = none_of (AttrOps_contains_tokens a) tokens"

definition AttrOps_startswith :: "AttrOps \<Rightarrow> SetBuilder" where
  "AttrOps_startswith a =
     (let left = (if ci a then ''lower-case(@'' @ name a @ '')'' else ''@'' @ name a)
      in SetBuilder (\<lambda>prefix.
           let right = quote (if ci a then lower prefix else prefix)
           in ''starts-with('' @ left @ '', '' @ right @ '')''))"

definition AttrOps_endswith :: "AttrOps \<Rightarrow> SetBuilder" where
  "AttrOps_endswith a =
     (let left = (if ci a then ''lower-case(@'' @ name a @ '')'' else ''@'' @ name a)
      in SetBuilder (\<lambda>suffix.
           let right = quote (if ci a then lower suffix else suffix)
           in ''ends-with('' @ left @ '', '' @ right @ '')''))"

definition has_name :: "AttrOps \<Rightarrow> error + AttrNameOps" where
  "has_name a =
     (if name a \<noteq> ''*''
      then Inl (ValueError ''attr(name).has_name is only meaningful for attr('*')'')
      else Inr (AttrNameOps (ci a)))"

definition AttrOps_matches :: "AttrOps \<Rightarrow> string \<Rightarrow> SetBuilder" where
  "AttrOps_matches a flags =
     (let fl = (if flags \<noteq> [] then '', '' @ quote flags else [])
      in SetBuilder (\<lambda>pattern.
           ''matches(@'' @ name a @ '', '' @ quote pattern @ fl @ '')''))"

definition missing :: "AttrOps \<Rightarrow> Pred" where
  "missing a = Pred (''not(@'' @ name a @ '')'')"

definition exists :: "AttrOps \<Rightarrow> Pred" where
  "exists a = Pred (''@'' @ name a)"

definition as_str :: "AttrOps \<Rightarrow> string Ops" where
  "as_str a = attr_str (name a) (ci a)"

definition as_num :: "(pyfloat \<Rightarrow> string) \<Rightarrow> AttrOps \<Rightarrow> pyfloat Ops" where
  "as_num str_float a = attr_num str_float (name a)"

text \<open>\<open>Pred.attr(name, case_insensitive=False)\<close>.\<close>

definition Pred_attr :: "string \<Rightarrow> bool \<Rightarrow> AttrOps" where
  "Pred_attr n case_insensitive = AttrOps n case_insensitive"

subsection \<open>Path and Node\<close>

datatype Path = Path (path_expr: string)

datatype Node = Node (test: string)

definition Path_compile :: "Path \<Rightarrow> string" where
  "Path_compile p = path_expr p"

definition Node_compile :: "Node \<Rightarrow> string" where
  "Node_compile n = test n"

definition Path_neg :: "Path \<Rightarrow> Pred" where
  "Path_neg p = Pred (''not('' @ path_expr p @ '')'')"

definition Path_where :: "Path \<Rightarrow> Pred \<Rightarrow> Path" where
  "Path_where p pred = Path (path_expr p @ ''['' @ Pred_compile pred @ '']'')"

definition Path_child :: "Path \<Rightarrow> Node \<Rightarrow> Path" where
  "Path_child p node = Path (path_expr p @ ''/'' @ Node_compile node)"

definition Path_desc :: "Path \<Rightarrow> Node \<Rightarrow> Path" where
  "Path_desc p node = Path (path_expr p @ ''//'' @ Node_compile node)"

definition Path_curr_desc :: "Path \<Rightarrow> Path" where
  "Path_curr_desc p = Path (''.//'' @ path_expr p)"

definition Path_validate :: "engines \<Rightarrow> Path \<Rightarrow> error + unit" where
  "Path_validate env p = validate_xpath env (path_expr p)"

definition Path_union :: "Path list \<Rightarrow> Path" where
  "Path_union paths =
     (if paths = [] then Path ''false()''
      else Path (str_join '' | '' (map (\<lambda>p. ''('' @ Path_compile p @ '')'') paths)))"

definition Node_or :: "Node \<Rightarrow> Node \<Rightarrow> Path" where
  "Node_or n other = Path (test n @ '' | '' @ test other)"

definition Node_any :: "Node \<Rightarrow> Path" where
  "Node_any n = Path (''//'' @ test n)"

definition Node_root :: "Node \<Rightarrow> Path" where
  "Node_root n = Path (''/'' @ test n)"

definition Node_where :: "Node \<Rightarrow> Pred \<Rightarrow> Path" where
  "Node_where n pred = Path_where (Path (test n)) pred"

definition Node_child :: "Node \<Rightarrow> Node \<Rightarrow> Path" where
  "Node_child n other = Path_child (Path (test n)) other"

definition Node_desc :: "Node \<Rightarrow> Node \<Rightarrow> Path" where
  "Node_desc n other = Path_desc (Path (test n)) other"

definition Node_curr_desc :: "Node \<Rightarrow> Path" where
  "Node_curr_desc n = Path_curr_desc (Path (test n))"

subsection \<open>shortcuts.py\<close>

definition E :: "string \<Rightarrow> Node" where
  "E tag = Node tag"

definition STAR :: Node where
  "STAR = Node ''*''"

section \<open>examples/find\_ad\_classes.py\<close>

definition ad_keywords :: "string list" where
  "ad_keywords =
     [''ads'', ''ad'', ''advert'', ''advertisement'', ''sponsored'', ''promo'',
      ''affiliate'', ''tracking'', ''analytics'']"

definition ad_class_selector :: Path where
  "ad_class_selector =
     Path_where (Node_any STAR)
       (any_of (AttrOps_contains (Pred_attr ''class'' False)) ad_keywords)"

section \<open>Properties\<close>

subsection \<open>String literals\<close>

text \<open>
  \<open>split\<close> and \<open>join\<close>: joining the pieces with another character replaces the
  separator by it, so joining with the separator itself gives the string back; a string
  that holds the separator has two pieces or more.
\<close>

lemma str_split_not_Nil: "str_split c s \<noteq> []"
  by (induction s) (auto split: list.splits)

lemma str_join_Cons_head:
  "str_join sep ((x # p) # ps) = x # str_join sep (p # ps)"
  by (cases ps) simp_all

lemma str_join_split_replace:
  "str_join [d] (str_split c s) = map (\<lambda>x. if x = c then d else x) s"
proof (induction s)
  case Nil
  show ?case by simp
next
  case (Cons x xs)
  obtain p ps where split: "str_split c xs = p # ps"
    using str_split_not_Nil [of c xs] by (cases "str_split c xs") auto
  show ?case
  proof (cases "x = c")
    case True
    then have "str_join [d] (str_split c (x # xs)) = d # str_join [d] (str_split c xs)"
      by (simp add: split)
    with True Cons.IH show ?thesis by simp
  next
    case False
    then have "str_join [d] (str_split c (x # xs)) = x # str_join [d] (str_split c xs)"
      by (simp add: split str_join_Cons_head)
    with False Cons.IH show ?thesis by simp
  qed
qed

lemma str_join_split_same: "str_join [c] (str_split c s) = s"
  by (simp add: str_join_split_replace map_idI)

lemma str_split_two_pieces:
  "c \<in> set s \<Longrightarrow> \<exists>p q ps. str_split c s = p # q # ps"
proof (induction s)
  case Nil
  then show ?case by simp
next
  case (Cons x xs)
  obtain p ps where split: "str_split c xs = p # ps"
    using str_split_not_Nil [of c xs] by (cases "str_split c xs") auto
  show ?case
  proof (cases "x = c")
    case True
    then show ?thesis by (simp add: split)
  next
    case False
    with Cons.prems have "c \<in> set xs" by simp
    then obtain p' q' ps' where "str_split c xs = p' # q' # ps'"
      using Cons.IH by blast
    with False show ?thesis by simp
  qed
qed

text \<open>The first two rules of \<open>quote\<close>, for every string.\<close>

lemma quote_no_single_quote: "sq \<notin> set s \<Longrightarrow> quote s = [sq] @ s @ [sq]"
  by (simp add: quote_def)

lemma quote_no_double_quote: "sq \<in> set s \<Longrightarrow> dq \<notin> set s \<Longrightarrow> quote s = [dq] @ s @ [dq]"
  by (simp add: quote_def)

text \<open>The third rule, as the code computes it, for every string with both quotes.\<close>

lemma quote_both_quotes:
  "sq \<in> set s \<Longrightarrow> dq \<in> set s \<Longrightarrow>
     quote s = ''concat(''
       @ str_join ('','' @ [sq, dq, sq] @ '','')
           (map (\<lambda>chunk. [dq] @ chunk @ [dq]) (str_split sq s))
       @ '')''"
  by (simp add: quote_def)

text \<open>
  For every string with both quotes the text of the code differs from the text of the
  specification's rule, and the arguments of the code's \<open>concat(...)\<close> joined again
  are not the string.
\<close>

lemma quote_rejoined_differs:
  assumes "sq \<in> set s"
  shows "quote_rejoined s \<noteq> s"
proof
  assume eq: "quote_rejoined s = s"
  have "sq \<notin> set (quote_rejoined s)"
    by (auto simp: quote_rejoined_def str_join_split_replace)
  with eq assms show False by simp
qed


lemma quote_differs_from_spec:
  assumes "sq \<in> set s" and "dq \<in> set s"
  shows "quote s \<noteq> quote_spec_concat s"
proof -
  obtain p q ps where split: "str_split sq s = p # q # ps"
    using str_split_two_pieces [OF assms(1)] by blast
  show ?thesis
    using assms by (simp add: quote_def quote_spec_concat_def split)
qed

text \<open>
  C1. On a string with both quote characters, \<open>quote\<close> should build a \<open>concat(...)\<close>
  of the double-quoted pieces with the double-quoted apostrophe between them, so that
  the arguments joined again are the original text. The code puts the single-quoted
  double quote between the pieces instead. On the input \<^verbatim>\<open>a'b"c\<close> it returns
  \<^verbatim>\<open>concat("a",'"',"b"c")\<close>, which is not what the specification's rule gives
  (\<^verbatim>\<open>concat("a","'","b"c")\<close>), and whose arguments joined again are
  \<^verbatim>\<open>a"b"c\<close>, not the input.
\<close>

theorem quote_both_quotes_input:
  "quote (''a'b'' @ [dq] @ ''c'')
     = ''concat('' @ [dq] @ ''a'' @ [dq] @ '','' @ [sq, dq, sq] @ '','' @ [dq] @ ''b'' @ [dq] @ ''c'' @ [dq] @ '')''
   \<and> quote_spec_concat (''a'b'' @ [dq] @ ''c'')
     = ''concat('' @ [dq] @ ''a'' @ [dq] @ '','' @ [dq, sq, dq] @ '','' @ [dq] @ ''b'' @ [dq] @ ''c'' @ [dq] @ '')''
   \<and> quote (''a'b'' @ [dq] @ ''c'') \<noteq> quote_spec_concat (''a'b'' @ [dq] @ ''c'')
   \<and> quote_rejoined (''a'b'' @ [dq] @ ''c'') = ''a'' @ [dq] @ ''b'' @ [dq] @ ''c''
   \<and> quote_rejoined (''a'b'' @ [dq] @ ''c'') \<noteq> ''a'b'' @ [dq] @ ''c''"
  by (simp add: quote_def quote_spec_concat_def quote_rejoined_def)

subsection \<open>The set builder\<close>

text \<open>
  C2. On no token, \<open>any_of\<close> compiles to \<open>false()\<close>, \<open>all_of\<close> to \<open>true()\<close> and
  \<open>none_of\<close> to \<open>true()\<close>; on one token or more, \<open>none_of\<close> compiles to the text of
  \<open>any_of\<close> on the same tokens inside \<open>not(...)\<close>.
\<close>

theorem set_builder_identities:
  "any_of sb [] = Pred ''false()''
   \<and> all_of sb [] = Pred ''true()''
   \<and> none_of sb [] = Pred ''true()''
   \<and> (ts \<noteq> [] \<longrightarrow>
        Pred_compile (none_of sb ts) = ''not('' @ Pred_compile (any_of sb ts) @ '')'')"
  by (simp add: any_of_def all_of_def none_of_def Pred_neg_def Pred_compile_def)

theorem set_builder_identities_witness:
  "[''ad'', ''promo''] \<noteq> []
   \<and> Pred_compile (any_of (AttrOps_contains (Pred_attr ''class'' False)) []) = ''false()''
   \<and> Pred_compile (none_of (AttrOps_contains (Pred_attr ''class'' False)) [''ad'', ''promo''])
       = ''not(contains(@class, 'ad') or contains(@class, 'promo'))''"
  using set_builder_identities [of "AttrOps_contains (Pred_attr ''class'' False)" "[''ad'', ''promo'']"]
  by (simp add: any_of_def AttrOps_contains_def Pred_attr_def Pred_compile_def quote_def)

subsection \<open>Comparisons\<close>

text \<open>
  C3. \<open>Ops.cmp\<close> raises exactly when the operator is not one of the six comparators,
  and then raises the invalid-comparator error; on one of the six it returns the
  predicate \<open>lhs op to_lit(v)\<close>.
\<close>

theorem Ops_cmp_invalid_operator:
  "(isl (Ops_cmp ops op v) \<longleftrightarrow> op \<notin> {''='', ''!='', ''<'', ''<='', ''>'', ''>=''})
   \<and> (op \<notin> {''='', ''!='', ''<'', ''<='', ''>'', ''>=''} \<longrightarrow>
        Ops_cmp ops op v = Inl (ValueError ''Invalid comparator''))
   \<and> (op \<in> {''='', ''!='', ''<'', ''<='', ''>'', ''>=''} \<longrightarrow>
        Ops_cmp ops op v = Inr (Pred (lhs ops @ '' '' @ op @ '' '' @ to_lit ops v)))"
  by (simp add: Ops_cmp_def comparators_def)

theorem Ops_cmp_invalid_operator_witness:
  "''<='' \<in> {''='', ''!='', ''<'', ''<='', ''>'', ''>=''}
   \<and> Ops_cmp (attr_str ''id'' False) ''<='' ''k'' = Inr (Pred (''@id <= 'k'' @ [sq]))
   \<and> ''=='' \<notin> {''='', ''!='', ''<'', ''<='', ''>'', ''>=''}
   \<and> Ops_cmp (attr_str ''id'' False) ''=='' ''k'' = Inl (ValueError ''Invalid comparator'')"
  using Ops_cmp_invalid_operator [of "attr_str ''id'' False" "''<=''" "''k''"]
        Ops_cmp_invalid_operator [of "attr_str ''id'' False" "''==''" "''k''"]
  by (simp add: attr_str_def quote_def)

text \<open>
  C4. \<open>has_name\<close> on \<open>Pred.attr(n)\<close> raises exactly when \<open>n\<close> is not the wildcard; on
  the wildcard it returns the attribute-name builder with the same case flag.
\<close>

theorem has_name_invalid_usage:
  "(isl (has_name (Pred_attr n c)) \<longleftrightarrow> n \<noteq> ''*'')
   \<and> (n \<noteq> ''*'' \<longrightarrow>
        has_name (Pred_attr n c)
          = Inl (ValueError ''attr(name).has_name is only meaningful for attr('*')''))
   \<and> (n = ''*'' \<longrightarrow> has_name (Pred_attr n c) = Inr (AttrNameOps c))"
  by (simp add: has_name_def Pred_attr_def)

theorem has_name_invalid_usage_witness:
  "has_name (Pred_attr ''*'' True) = Inr (AttrNameOps True)
   \<and> ''class'' \<noteq> ''*''
   \<and> isl (has_name (Pred_attr ''class'' False))"
  using has_name_invalid_usage [of "''*''" True] has_name_invalid_usage [of "''class''" False]
  by simp

text \<open>
  C5. The equality predicate of \<open>attr_num\<close> renders not-a-number as \<open>NaN\<close>, the
  positive infinity as \<open>Infinity\<close>, the negative infinity as \<open>-Infinity\<close> and every
  other value as its text, after \<open>number(@name) = \<close>.
\<close>

theorem attr_num_eq_render:
  "Ops_eq (attr_num str_float n) v =
     Inr (Pred (''number(@'' @ n @ '') = '' @
       (case v of
          NaN \<Rightarrow> ''NaN''
        | Inf s \<Rightarrow> (if s then ''-Infinity'' else ''Infinity'')
        | Finite s m \<Rightarrow> str_float v)))"
  by (cases v) (auto simp: Ops_eq_def Ops_cmp_def comparators_def attr_num_def float_ne_def)

theorem attr_num_eq_render_witness:
  "Ops_eq (attr_num (\<lambda>v. ''1.5'') ''x'') NaN = Inr (Pred ''number(@x) = NaN'')
   \<and> Ops_eq (attr_num (\<lambda>v. ''1.5'') ''x'') (Inf False) = Inr (Pred ''number(@x) = Infinity'')
   \<and> Ops_eq (attr_num (\<lambda>v. ''1.5'') ''x'') (Inf True) = Inr (Pred ''number(@x) = -Infinity'')
   \<and> Ops_eq (attr_num (\<lambda>v. ''1.5'') ''x'') (Finite False (3 / 2))
       = Inr (Pred ''number(@x) = 1.5'')"
  using attr_num_eq_render [of "\<lambda>v. ''1.5''" "''x''" NaN]
        attr_num_eq_render [of "\<lambda>v. ''1.5''" "''x''" "Inf False"]
        attr_num_eq_render [of "\<lambda>v. ''1.5''" "''x''" "Inf True"]
        attr_num_eq_render [of "\<lambda>v. ''1.5''" "''x''" "Finite False (3 / 2)"]
  by simp

subsection \<open>The example selector\<close>

text \<open>
  C6. The ad-classification selector compiles to \<open>//*[...]\<close> around nine
  \<open>contains(@class, ...)\<close> clauses joined by \<open>or\<close>, one for each keyword of the fixed
  list, in the order of the list.
\<close>

theorem ad_class_selector_compile:
  "Path_compile ad_class_selector =
     ''//*[contains(@class, 'ads') or contains(@class, 'ad') or contains(@class, 'advert') or contains(@class, 'advertisement') or contains(@class, 'sponsored') or contains(@class, 'promo') or contains(@class, 'affiliate') or contains(@class, 'tracking') or contains(@class, 'analytics')]''
   \<and> Path_compile ad_class_selector =
       ''//*['' @ str_join '' or '' (map (\<lambda>k. ''contains(@class, '' @ [sq] @ k @ [sq] @ '')'') ad_keywords) @ '']''
   \<and> ad_keywords = [''ads'', ''ad'', ''advert'', ''advertisement'', ''sponsored'', ''promo'',
        ''affiliate'', ''tracking'', ''analytics'']
   \<and> length ad_keywords = 9"
  by (simp add: ad_class_selector_def ad_keywords_def Path_compile_def Path_where_def
      Node_any_def STAR_def any_of_def AttrOps_contains_def Pred_attr_def Pred_compile_def
      quote_def)

subsection \<open>Unions\<close>

text \<open>
  C7. The union of two nodes compiles to the two tests with \<open> | \<close> between them and
  no parentheses; \<open>Path.union\<close> of no path compiles to \<open>false()\<close>, and of one path or
  more to the operands' texts, each in parentheses, joined by \<open> | \<close>.
\<close>

theorem union_forms:
  "Path_compile (Node_or a b) = test a @ '' | '' @ test b
   \<and> Path_compile (Path_union []) = ''false()''
   \<and> (ps \<noteq> [] \<longrightarrow>
        Path_compile (Path_union ps)
          = str_join '' | '' (map (\<lambda>p. ''('' @ Path_compile p @ '')'') ps))"
  by (simp add: Node_or_def Path_union_def Path_compile_def)

theorem union_forms_witness:
  "Path_compile (Node_or (E ''a'') (E ''b'')) = ''a | b''
   \<and> [Node_any (E ''a''), Node_root (E ''b'')] \<noteq> []
   \<and> Path_compile (Path_union [Node_any (E ''a''), Node_root (E ''b'')]) = ''(//a) | (/b)''
   \<and> Path_compile (Path_union [Node_any (E ''a'')]) = ''(//a)''"
  using union_forms [of "E ''a''" "E ''b''" "[Node_any (E ''a''), Node_root (E ''b'')]"]
        union_forms [of "E ''a''" "E ''b''" "[Node_any (E ''a'')]"]
  by (simp add: E_def Node_any_def Node_root_def Path_compile_def)

subsection \<open>Validation\<close>

text \<open>
  C8. With no engine available, \<open>validate_xpath\<close> and \<open>Path.validate\<close> return without
  an error on every expression. A syntax error comes only from an available engine
  that rejects the expression: the first engine when it is available, the second when
  only it is. Compiling a path, a predicate or a node returns the wrapped text
  whatever the engines are.
\<close>

theorem validate_best_effort:
  "(\<not> elementpath_available env \<and> \<not> lxml_available env \<longrightarrow>
      validate_xpath env e = Inr () \<and> Path_validate env p = Inr ())
   \<and> (validate_xpath env e = Inl err \<longrightarrow>
        (elementpath_available env
           \<and> (\<exists>m. elementpath_parse env e = Some m
                  \<and> err = SyntaxError (''XPath (elementpath) syntax error: '' @ m)))
        \<or> (\<not> elementpath_available env \<and> lxml_available env
           \<and> (\<exists>m. lxml_XPath env e = Some m
                  \<and> err = SyntaxError (''XPath (lxml) syntax error: '' @ m))))
   \<and> Path_compile p = path_expr p
   \<and> Pred_compile q = pred_expr q
   \<and> Node_compile n = test n"
proof -
  have no_engine:
    "\<not> elementpath_available env \<and> \<not> lxml_available env \<longrightarrow>
       validate_xpath env e = Inr () \<and> Path_validate env p = Inr ()"
    by (simp add: validate_xpath_def Path_validate_def)
  have only_engine:
    "validate_xpath env e = Inl err \<longrightarrow>
       (elementpath_available env
          \<and> (\<exists>m. elementpath_parse env e = Some m
                 \<and> err = SyntaxError (''XPath (elementpath) syntax error: '' @ m)))
       \<or> (\<not> elementpath_available env \<and> lxml_available env
          \<and> (\<exists>m. lxml_XPath env e = Some m
                 \<and> err = SyntaxError (''XPath (lxml) syntax error: '' @ m)))"
  proof (cases "elementpath_available env")
    case True
    then show ?thesis
      by (cases "elementpath_parse env e") (auto simp: validate_xpath_def)
  next
    case False
    then show ?thesis
      by (cases "lxml_available env"; cases "lxml_XPath env e")
         (auto simp: validate_xpath_def)
  qed
  have compile:
    "Path_compile p = path_expr p \<and> Pred_compile q = pred_expr q \<and> Node_compile n = test n"
    by (simp add: Path_compile_def Pred_compile_def Node_compile_def)
  from no_engine only_engine compile show ?thesis
    by blast
qed

theorem validate_best_effort_witness:
  "validate_xpath \<lparr> elementpath_available = False, lxml_available = False,
       elementpath_parse = (\<lambda>e. Some ''bad''), lxml_XPath = (\<lambda>e. Some ''bad'') \<rparr> ''//*[''
     = Inr ()
   \<and> Path_validate \<lparr> elementpath_available = False, lxml_available = False,
       elementpath_parse = (\<lambda>e. Some ''bad''), lxml_XPath = (\<lambda>e. Some ''bad'') \<rparr> (Path ''//*['')
     = Inr ()
   \<and> validate_xpath \<lparr> elementpath_available = False, lxml_available = True,
       elementpath_parse = (\<lambda>e. None), lxml_XPath = (\<lambda>e. Some ''bad'') \<rparr> ''//*[''
     = Inl (SyntaxError ''XPath (lxml) syntax error: bad'')"
  using validate_best_effort [where env = "\<lparr> elementpath_available = False, lxml_available = False,
       elementpath_parse = (\<lambda>e. Some ''bad''), lxml_XPath = (\<lambda>e. Some ''bad'') \<rparr>"
       and e = "''//*[''" and p = "Path ''//*[''"]
    validate_best_effort [where env = "\<lparr> elementpath_available = False, lxml_available = True,
       elementpath_parse = (\<lambda>e. None), lxml_XPath = (\<lambda>e. Some ''bad'') \<rparr>"
       and e = "''//*[''" and err = "SyntaxError ''XPath (lxml) syntax error: bad''"]
  by (simp add: validate_xpath_def)

subsection \<open>Case-insensitivity and grouping\<close>

text \<open>
  C9. The \<open>matches\<close> view of a case-insensitive attribute builder gives, for each
  pattern, \<open>matches(@name, pattern)\<close> on the raw attribute, with the quoted flags
  appended only when the caller gave some: the same text as the case-sensitive
  builder. The views \<open>contains\<close>, \<open>startswith\<close>, \<open>endswith\<close> and \<open>contains_tokens\<close>
  do change with the flag.
\<close>

theorem attr_matches_ignores_ci:
  "make_one (AttrOps_matches (Pred_attr n True) flags) pat
     = ''matches(@'' @ n @ '', '' @ quote pat
        @ (if flags = [] then [] else '', '' @ quote flags) @ '')''
   \<and> make_one (AttrOps_matches (Pred_attr n True) flags) pat
     = make_one (AttrOps_matches (Pred_attr n False) flags) pat
   \<and> make_one (AttrOps_contains (Pred_attr n True)) tok
     = ''contains(lower-case(@'' @ n @ ''), '' @ quote (lower tok) @ '')''
   \<and> make_one (AttrOps_contains (Pred_attr n False)) tok
     = ''contains(@'' @ n @ '', '' @ quote tok @ '')''
   \<and> make_one (AttrOps_startswith (Pred_attr n True)) tok
     = ''starts-with(lower-case(@'' @ n @ ''), '' @ quote (lower tok) @ '')''
   \<and> make_one (AttrOps_startswith (Pred_attr n False)) tok
     = ''starts-with(@'' @ n @ '', '' @ quote tok @ '')''
   \<and> make_one (AttrOps_endswith (Pred_attr n True)) tok
     = ''ends-with(lower-case(@'' @ n @ ''), '' @ quote (lower tok) @ '')''
   \<and> make_one (AttrOps_endswith (Pred_attr n False)) tok
     = ''ends-with(@'' @ n @ '', '' @ quote tok @ '')''
   \<and> make_one (AttrOps_contains_tokens (Pred_attr n True)) tok
     = ''matches(concat(' ', normalize-space(@'' @ n @ ''), ' '), ''
        @ quote ([bs] @ ''s'' @ re_escape_xsd tok @ [bs] @ ''s'') @ '', 'i'' @ [sq] @ '')''
   \<and> make_one (AttrOps_contains_tokens (Pred_attr n False)) tok
     = ''matches(concat(' ', normalize-space(@'' @ n @ ''), ' '), ''
        @ quote ([bs] @ ''s'' @ re_escape_xsd tok @ [bs] @ ''s'') @ '')''"
  by (simp add: AttrOps_matches_def AttrOps_contains_def AttrOps_startswith_def
      AttrOps_endswith_def AttrOps_contains_tokens_def Pred_attr_def)

theorem attr_matches_ignores_ci_witness:
  "make_one (AttrOps_matches (Pred_attr ''class'' True) []) ''Ad.*'' = ''matches(@class, 'Ad.*')''
   \<and> make_one (AttrOps_matches (Pred_attr ''class'' True) ''x'') ''Ad.*''
       = ''matches(@class, 'Ad.*', 'x')''
   \<and> make_one (AttrOps_contains (Pred_attr ''class'' True)) ''Ad''
       = ''contains(lower-case(@class), 'ad')''"
  using attr_matches_ignores_ci [of "''class''" "[]" "''Ad.*''" "''Ad''"]
        attr_matches_ignores_ci [of "''class''" "''x''" "''Ad.*''" "''Ad''"]
  by (simp add: quote_def lower_def char_lower_def)

text \<open>
  C10. On two tokens or more, \<open>any_of\<close> and \<open>all_of\<close> join the per-token texts with
  \<open> or \<close> and \<open> and \<close> and add no parentheses, so the attribute-name builders give
  \<open>some $a in @* satisfies ... or some $a in @* satisfies ...\<close>; \<open>Pred.union\<close> puts
  each operand in parentheses.
\<close>

theorem set_builder_no_parentheses:
  "(2 \<le> length ts \<longrightarrow>
      Pred_compile (any_of sb ts) = str_join '' or '' (map (make_one sb) ts)
      \<and> Pred_compile (all_of sb ts) = str_join '' and '' (map (make_one sb) ts))
   \<and> Pred_compile (any_of (AttrNameOps_contains (AttrNameOps False)) [t1, t2])
       = ''some $a in @* satisfies contains(local-name($a), '' @ quote t1 @ '')''
         @ '' or ''
         @ ''some $a in @* satisfies contains(local-name($a), '' @ quote t2 @ '')''
   \<and> Pred_compile (any_of (AttrNameOps_equals (AttrNameOps False)) [t1, t2])
       = ''some $a in @* satisfies local-name($a) = '' @ quote t1
         @ '' or ''
         @ ''some $a in @* satisfies local-name($a) = '' @ quote t2
   \<and> (2 \<le> length ps \<longrightarrow>
        Pred_compile (Pred_union ps)
          = str_join '' or '' (map (\<lambda>p. ''('' @ Pred_compile p @ '')'') ps))
   \<and> Pred_compile (Pred_union [p1, p2])
       = ''('' @ Pred_compile p1 @ '') or ('' @ Pred_compile p2 @ '')''"
  by (auto simp: any_of_def all_of_def Pred_union_def Pred_compile_def
      AttrNameOps_contains_def AttrNameOps_equals_def lname_def)

theorem set_builder_no_parentheses_witness:
  "2 \<le> length [''data'', ''aria'', ''x'']
   \<and> Pred_compile (any_of (AttrNameOps_startswith (AttrNameOps False)) [''data'', ''aria'', ''x''])
       = ''some $a in @* satisfies starts-with(local-name($a), 'data') or some $a in @* satisfies starts-with(local-name($a), 'aria') or some $a in @* satisfies starts-with(local-name($a), 'x')''
   \<and> Pred_compile (all_of (AttrOps_contains (Pred_attr ''class'' False)) [''a'', ''b''])
       = ''contains(@class, 'a') and contains(@class, 'b')''
   \<and> Pred_compile (Pred_union [exists (Pred_attr ''id'' False), missing (Pred_attr ''role'' False)])
       = ''(@id) or (not(@role))''"
  using set_builder_no_parentheses [where ts = "[''data'', ''aria'', ''x'']"
          and sb = "AttrNameOps_startswith (AttrNameOps False)"
          and ps = "[exists (Pred_attr ''id'' False), missing (Pred_attr ''role'' False)]"]
        set_builder_no_parentheses [where ts = "[''a'', ''b'']"
          and sb = "AttrOps_contains (Pred_attr ''class'' False)"]
  by (simp add: AttrNameOps_startswith_def lname_def AttrOps_contains_def Pred_attr_def
      exists_def missing_def Pred_compile_def quote_def)

end
